theory Spec2Isabelle
  imports Complex_Main "HOL-Library.Multiset" "HOL-Library.Sublist" "HOL-Library.Product_Lexorder"
begin

section \<open>JavaScript values used by the dashboard\<close>

text \<open>
  A JavaScript number is NaN, one of the two infinities, or a finite value. Finite values
  are embedded in the reals; the only arithmetic the dashboard code performs on event data
  is the subtraction inside the sort comparator, of which the sort reads the sign alone,
  and the sign of an IEEE-754 difference is the sign of the exact difference.
\<close>

datatype jsnum = NaN | NegInf | Fin real | PosInf

text \<open>The binary minus of JavaScript on numbers.\<close>

fun js_sub :: "jsnum \<Rightarrow> jsnum \<Rightarrow> jsnum" where
  "js_sub NaN _ = NaN"
| "js_sub _ NaN = NaN"
| "js_sub PosInf PosInf = NaN"
| "js_sub NegInf NegInf = NaN"
| "js_sub PosInf _ = PosInf"
| "js_sub NegInf _ = NegInf"
| "js_sub (Fin x) PosInf = NegInf"
| "js_sub (Fin x) NegInf = PosInf"
| "js_sub (Fin x) (Fin y) = Fin (x - y)"

text \<open>\<^verbatim>\<open>a !== b\<close> on numbers: NaN differs from everything, itself included.\<close>

definition js_strict_neq :: "jsnum \<Rightarrow> jsnum \<Rightarrow> bool" where
  "js_strict_neq a b = (a = NaN \<or> b = NaN \<or> a \<noteq> b)"

text \<open>\<^verbatim>\<open>a < b\<close> on numbers: false as soon as one side is NaN.\<close>

fun js_less :: "jsnum \<Rightarrow> jsnum \<Rightarrow> bool" where
  "js_less NaN _ = False"
| "js_less _ NaN = False"
| "js_less _ NegInf = False"
| "js_less NegInf _ = True"
| "js_less PosInf _ = False"
| "js_less (Fin x) PosInf = True"
| "js_less (Fin x) (Fin y) = (x < y)"

text \<open>\<^verbatim>\<open>Number.isFinite\<close> and \<^verbatim>\<open>Number.isNaN\<close> on a number.\<close>

fun Number_isFinite :: "jsnum \<Rightarrow> bool" where
  "Number_isFinite (Fin x) = True"
| "Number_isFinite _ = False"

text \<open>
  An optional or nullable property is an \<open>option\<close>: \<open>None\<close> stands for \<^verbatim>\<open>null\<close>,
  \<^verbatim>\<open>undefined\<close> and a missing property alike; the code never tells them apart (it uses
  \<^verbatim>\<open>??\<close>, \<^verbatim>\<open>typeof\<close> and truthiness only).
\<close>

text \<open>The nullish coalescing operator \<^verbatim>\<open>v ?? d\<close>.\<close>

fun nullish :: "'a option \<Rightarrow> 'a \<Rightarrow> 'a" where
  "nullish None d = d"
| "nullish (Some v) d = v"

text \<open>Truthiness of a nullable string: \<^verbatim>\<open>null\<close>, \<^verbatim>\<open>undefined\<close> and \<^verbatim>\<open>""\<close> are falsy.\<close>

fun truthy :: "string option \<Rightarrow> bool" where
  "truthy None = False"
| "truthy (Some s) = (s \<noteq> [])"

text \<open>\<^verbatim>\<open>typeof v === "number"\<close> and \<^verbatim>\<open>Number.isNaN(v)\<close> on a nullable number.\<close>

fun typeof_number :: "jsnum option \<Rightarrow> bool" where
  "typeof_number None = False"
| "typeof_number (Some v) = True"

fun Number_isNaN :: "jsnum option \<Rightarrow> bool" where
  "Number_isNaN (Some NaN) = True"
| "Number_isNaN _ = False"

section \<open>The event model (lib/api)\<close>

text \<open>
  \<^verbatim>\<open>EventItem\<close>. The type declares \<^verbatim>\<open>time_utc: string\<close>, but the sort comparator and the list
  view both test it for truthiness, so it is nullable here. \<^verbatim>\<open>event_type\<close> and
  \<^verbatim>\<open>severity_level\<close> are strings: the unions of the type are not enforced on the parsed JSON,
  and \<^verbatim>\<open>hazardPill\<close>, \<^verbatim>\<open>badgeClass\<close> and \<^verbatim>\<open>colorForLevel\<close> all have a branch for other values.
\<close>

record EventItem =
  source :: string
  event_type :: string
  source_event_id :: string
  time_utc :: "string option"
  place :: "string option"
  magnitude :: "jsnum option"
  depth_km :: "jsnum option"
  lat :: "jsnum option"
  lon :: "jsnum option"
  severity_score :: "jsnum option"
  severity_level :: string
  url :: "string option"
  hazard_subtype :: "string option"

record EventsResponse =
  resp_hazard :: "string option"
  resp_count :: jsnum
  resp_events :: "EventItem list option"

section \<open>Severity colours\<close>

text \<open>\<^verbatim>\<open>badgeClass\<close> of the page; the argument may be anything at run time.\<close>

definition badgeClass :: "string option \<Rightarrow> string" where
  "badgeClass level =
     (if level = Some ''critical'' then ''bg-red-600 text-white''
      else if level = Some ''high'' then ''bg-orange-600 text-white''
      else if level = Some ''medium'' then ''bg-yellow-500 text-black''
      else ''bg-green-600 text-white'')"

text \<open>\<^verbatim>\<open>colorForLevel\<close> of the map; its parameter is optional in the source.\<close>

definition colorForLevel :: "string option \<Rightarrow> string" where
  "colorForLevel level =
     (if level = Some ''critical'' then ''#ef4444''
      else if level = Some ''high'' then ''#f97316''
      else if level = Some ''medium'' then ''#eab308''
      else ''#22c55e'')"

text \<open>\<^verbatim>\<open>hazardPill\<close> of the page.\<close>

definition hazardPill :: "EventItem \<Rightarrow> string" where
  "hazardPill e =
     (if event_type e = ''earthquake'' then ''EQ''
      else if event_type e = ''flood'' then ''FLOOD''
      else ''EVENT'')"

section \<open>Array.prototype.sort\<close>

text \<open>
  The sort of ECMAScript calls the comparator through SortCompare, which turns a NaN
  result into \<open>+0\<close> and then looks at the sign only; since ECMAScript 2019 the sort is
  stable. It is modelled as the stable insertion sort: an element moves behind exactly the
  elements the comparator puts strictly before it. With a consistent comparator this is
  the order every conforming engine produces.
\<close>

fun js_sign :: "jsnum \<Rightarrow> int" where
  "js_sign NaN = 0"
| "js_sign NegInf = -1"
| "js_sign PosInf = 1"
| "js_sign (Fin x) = (if x < 0 then -1 else if x = 0 then 0 else 1)"

definition SortCompare :: "('a \<Rightarrow> 'a \<Rightarrow> jsnum) \<Rightarrow> 'a \<Rightarrow> 'a \<Rightarrow> int" where
  "SortCompare comparefn x y = js_sign (comparefn x y)"

fun sort_insert :: "('a \<Rightarrow> 'a \<Rightarrow> jsnum) \<Rightarrow> 'a \<Rightarrow> 'a list \<Rightarrow> 'a list" where
  "sort_insert comparefn x [] = [x]"
| "sort_insert comparefn x (y # ys) =
     (if SortCompare comparefn x y > 0 then y # sort_insert comparefn x ys else x # y # ys)"

definition Array_sort :: "('a \<Rightarrow> 'a \<Rightarrow> jsnum) \<Rightarrow> 'a list \<Rightarrow> 'a list" where
  "Array_sort comparefn xs = foldr (sort_insert comparefn) xs []"

section \<open>Fetching a feed (lib/api)\<close>

text \<open>
  A settled promise. A rejection carries the thrown value, of which the page reads
  \<^verbatim>\<open>e?.message\<close> only: \<open>None\<close> when the value is nullish or has no message.
\<close>

datatype 'a settled = Fulfilled 'a | Rejected "string option"

text \<open>\<^verbatim>\<open>String(n)\<close> for a status code: the decimal digits of a natural number.\<close>

fun String_nat :: "nat \<Rightarrow> string" where
  "String_nat n =
     (if n < 10 then [''0123456789'' ! n]
      else String_nat (n div 10) @ [''0123456789'' ! (n mod 10)])"

text \<open>
  What \<^verbatim>\<open>fetch\<close> does with the request: it rejects, or it resolves to a response with a
  status, a body read by \<^verbatim>\<open>text()\<close> and a body parsed by \<^verbatim>\<open>json()\<close>, each of which may
  reject in turn.
\<close>

datatype fetched =
  Fetch_rejected "string option"
| Fetch_response nat "string settled" "EventsResponse settled"

text \<open>\<^verbatim>\<open>resp.ok\<close>: the status is in the range 200 to 299.\<close>

definition resp_ok :: "nat \<Rightarrow> bool" where
  "resp_ok status = (200 \<le> status \<and> status \<le> 299)"

text \<open>
  \<^verbatim>\<open>fetchEvents\<close> from its \<^verbatim>\<open>await fetch\<close> on (the query string it builds before does not
  bear on how the promise settles).
\<close>

fun fetchEvents :: "fetched \<Rightarrow> EventsResponse settled" where
  "fetchEvents (Fetch_rejected e) = Rejected e"
| "fetchEvents (Fetch_response status body parsed) =
     (if \<not> resp_ok status then
        (let txt = (case body of Fulfilled t \<Rightarrow> t | Rejected _ \<Rightarrow> [])
         in Rejected (Some (''API '' @ String_nat status @ '': '' @
                             (if txt \<noteq> [] then txt else ''Failed to fetch''))))
      else parsed)"

section \<open>The page: polling, merging, filtering, list view\<close>

text \<open>
  \<^verbatim>\<open>t ? Date.parse(t) : 0\<close>. \<^verbatim>\<open>Date.parse\<close> belongs to the platform and is a parameter
  of the model: it returns the time value in milliseconds, or NaN for a string it cannot
  parse.
\<close>

definition time_or_zero :: "(string \<Rightarrow> jsnum) \<Rightarrow> string option \<Rightarrow> jsnum" where
  "time_or_zero Date_parse t = (if truthy t then Date_parse (nullish t []) else Fin 0)"

text \<open>The comparator that \<^verbatim>\<open>load\<close> hands to \<^verbatim>\<open>merged.sort\<close>.\<close>

definition compare_events :: "(string \<Rightarrow> jsnum) \<Rightarrow> EventItem \<Rightarrow> EventItem \<Rightarrow> jsnum" where
  "compare_events Date_parse a b =
     (let a_s = nullish (severity_score a) (Fin 0);
          b_s = nullish (severity_score b) (Fin 0)
      in if js_strict_neq b_s a_s then js_sub b_s a_s
         else let a_t = time_or_zero Date_parse (time_utc a);
                  b_t = time_or_zero Date_parse (time_utc b)
              in js_sub b_t a_t)"

text \<open>\<^verbatim>\<open>merged\<close>: both event lists, earthquakes first, then sorted in place.\<close>

definition merged :: "(string \<Rightarrow> jsnum) \<Rightarrow> EventsResponse \<Rightarrow> EventsResponse \<Rightarrow> EventItem list" where
  "merged Date_parse eq fl =
     Array_sort (compare_events Date_parse)
       (nullish (resp_events eq) [] @ nullish (resp_events fl) [])"

text \<open>
  \<^verbatim>\<open>Promise.all\<close> of the two fetches: fulfilled with both values when both fulfil, else
  rejected with the reason of the promise that rejected first; \<open>eq_first\<close> tells which
  one that is when both reject.
\<close>

fun Promise_all ::
  "bool \<Rightarrow> EventsResponse settled \<Rightarrow> EventsResponse settled \<Rightarrow> (EventsResponse \<times> EventsResponse) settled"
where
  "Promise_all eq_first (Fulfilled eq) (Fulfilled fl) = Fulfilled (eq, fl)"
| "Promise_all eq_first (Rejected r) (Fulfilled fl) = Rejected r"
| "Promise_all eq_first (Fulfilled eq) (Rejected r) = Rejected r"
| "Promise_all eq_first (Rejected r1) (Rejected r2) = Rejected (if eq_first then r1 else r2)"

text \<open>The state of \<^verbatim>\<open>Home\<close>, one field per \<^verbatim>\<open>useState\<close>.\<close>

datatype HazardFilter = Earthquake_only | Flood_only | All_hazards

fun HazardFilter_string :: "HazardFilter \<Rightarrow> string" where
  "HazardFilter_string Earthquake_only = ''earthquake''"
| "HazardFilter_string Flood_only = ''flood''"
| "HazardFilter_string All_hazards = ''all''"

record Home =
  events :: "EventItem list"
  loading :: bool
  error :: "string option"
  hazard :: HazardFilter

definition Home_initial :: Home where
  "Home_initial = \<lparr>events = [], loading = True, error = None, hazard = All_hazards\<rparr>"

text \<open>\<^verbatim>\<open>load\<close> up to its \<^verbatim>\<open>await\<close>: two unguarded state updates.\<close>

definition load_begin :: "Home \<Rightarrow> Home" where
  "load_begin st = st\<lparr>loading := True, error := None\<rparr>"

text \<open>
  \<^verbatim>\<open>load\<close> from the \<^verbatim>\<open>await\<close> on, run when \<^verbatim>\<open>Promise.all\<close> has settled: the \<^verbatim>\<open>try\<close> body
  or the \<^verbatim>\<open>catch\<close> clause, then the \<^verbatim>\<open>finally\<close> clause. \<open>cancelled\<close> is the flag of the
  effect as it stands at that moment.
\<close>

definition load_settle ::
  "(string \<Rightarrow> jsnum) \<Rightarrow> bool \<Rightarrow> (EventsResponse \<times> EventsResponse) settled \<Rightarrow> Home \<Rightarrow> Home"
where
  "load_settle Date_parse cancelled outcome st =
     (let st1 =
        (case outcome of
           Fulfilled (eq, fl) \<Rightarrow>
             (if \<not> cancelled then st\<lparr>events := merged Date_parse eq fl\<rparr> else st)
         | Rejected e \<Rightarrow>
             (if \<not> cancelled then st\<lparr>error := Some (nullish e ''Failed to load events'')\<rparr>
              else st))
      in if \<not> cancelled then st1\<lparr>loading := False\<rparr> else st1)"

text \<open>\<^verbatim>\<open>{error && <div>{error}</div>}\<close>: the error box shows a truthy \<^verbatim>\<open>error\<close>.\<close>

definition error_box :: "Home \<Rightarrow> string option" where
  "error_box st = (if truthy (error st) then error st else None)"

text \<open>
  The effect of \<^verbatim>\<open>Home\<close> as a transition system. The effect calls \<^verbatim>\<open>load\<close> once and
  registers the interval; \<open>Tick\<close> is the interval firing, \<open>Settle\<close> is the \<^verbatim>\<open>Promise.all\<close>
  of one cycle in flight settling, \<open>Cleanup\<close> is the function the effect returns.
\<close>

record Poller =
  page :: Home
  cancelled :: bool
  timer :: bool
  in_flight :: nat

datatype action =
  Tick
| Settle bool "EventsResponse settled" "EventsResponse settled"
| Cleanup

definition mount :: "Home \<Rightarrow> Poller" where
  "mount st = \<lparr>page = load_begin st, cancelled = False, timer = True, in_flight = 1\<rparr>"

fun step :: "(string \<Rightarrow> jsnum) \<Rightarrow> Poller \<Rightarrow> action \<Rightarrow> Poller" where
  "step Date_parse p Tick =
     (if timer p then p\<lparr>page := load_begin (page p), in_flight := Suc (in_flight p)\<rparr> else p)"
| "step Date_parse p (Settle eq_first eq fl) =
     (if in_flight p = 0 then p
      else p\<lparr>page := load_settle Date_parse (cancelled p) (Promise_all eq_first eq fl) (page p),
             in_flight := in_flight p - 1\<rparr>)"
| "step Date_parse p Cleanup = p\<lparr>cancelled := True, timer := False\<rparr>"

definition run :: "(string \<Rightarrow> jsnum) \<Rightarrow> Poller \<Rightarrow> action list \<Rightarrow> Poller" where
  "run Date_parse p as = foldl (step Date_parse) p as"

text \<open>\<^verbatim>\<open>filteredEvents\<close>, a function of the \<^verbatim>\<open>events\<close> and \<^verbatim>\<open>hazard\<close> states.\<close>

definition filteredEvents :: "EventItem list \<Rightarrow> HazardFilter \<Rightarrow> EventItem list" where
  "filteredEvents evs hz =
     (if hz = All_hazards then evs
      else filter (\<lambda>e. event_type e = HazardFilter_string hz) evs)"

text \<open>
  The list card: one row per element of \<^verbatim>\<open>filteredEvents\<close>, in order. A row keeps the
  React key, the link target, the hazard pill, the place label and the badge class; the
  remaining cells are number and date formatting.
\<close>

record Row =
  row_key :: string
  row_href :: string
  row_pill :: string
  row_place :: string
  row_badge :: string

definition list_row :: "EventItem \<Rightarrow> Row" where
  "list_row e =
     \<lparr>row_key = source e @ ''-'' @ source_event_id e,
      row_href = nullish (url e) ''#'',
      row_pill = hazardPill e,
      row_place = nullish (place e) ''Unknown location'',
      row_badge = badgeClass (Some (severity_level e))\<rparr>"

definition list_rows :: "EventItem list \<Rightarrow> Row list" where
  "list_rows evs = map list_row evs"

section \<open>The map: plottable events and the heat layer\<close>

text \<open>The type guard inside \<^verbatim>\<open>validEvents\<close>.\<close>

definition has_valid_coords :: "EventItem \<Rightarrow> bool" where
  "has_valid_coords e =
     (typeof_number (lat e) \<and> typeof_number (lon e) \<and>
      \<not> Number_isNaN (lat e) \<and> \<not> Number_isNaN (lon e))"

definition validEvents :: "EventItem list option \<Rightarrow> EventItem list" where
  "validEvents evs = filter has_valid_coords (nullish evs [])"

record HeatPoint =
  hp_lat :: "jsnum option"
  hp_lon :: "jsnum option"
  intensity :: "jsnum option"

definition heatPoints :: "EventItem list \<Rightarrow> HeatPoint list" where
  "heatPoints valid =
     map (\<lambda>e. \<lparr>hp_lat = lat e, hp_lon = lon e,
                intensity = Some (nullish (severity_score e) (Fin 1))\<rparr>) valid"

text \<open>
  \<^verbatim>\<open>HeatLayer\<close>: the tuples handed to \<^verbatim>\<open>L.heatLayer\<close>, or \<open>None\<close> when the effect returns
  early on an empty \<^verbatim>\<open>points\<close> and adds no layer.
\<close>

definition HeatLayer :: "HeatPoint list \<Rightarrow> (jsnum option \<times> jsnum option \<times> jsnum) list option" where
  "HeatLayer points =
     (if points = [] then None
      else Some (map (\<lambda>p. (hp_lat p, hp_lon p, nullish (intensity p) (Fin 1)))
                  (filter (\<lambda>p. typeof_number (hp_lat p) \<and> typeof_number (hp_lon p) \<and>
                                \<not> Number_isNaN (hp_lat p) \<and> \<not> Number_isNaN (hp_lon p))
                     points)))"

text \<open>What \<^verbatim>\<open>EventsMap\<close> feeds the heat layer in heatmap view, from its \<^verbatim>\<open>events\<close> prop.\<close>

definition estimate :: "EventItem list \<Rightarrow> (jsnum option \<times> jsnum option \<times> jsnum) list option" where
  "estimate evs = HeatLayer (heatPoints (validEvents (Some evs)))"

section \<open>The magnitude slider (components/MagnitudeSlider)\<close>











section \<open>Ranking keys\<close>

text \<open>
  The two keys the comparator reads off an event, and the strict precedence they induce:
  higher score first, then later time first.
\<close>

definition score_key :: "EventItem \<Rightarrow> jsnum" where
  "score_key e = nullish (severity_score e) (Fin 0)"

definition time_key :: "(string \<Rightarrow> jsnum) \<Rightarrow> EventItem \<Rightarrow> jsnum" where
  "time_key Date_parse e = time_or_zero Date_parse (time_utc e)"

definition ranks_before :: "(string \<Rightarrow> jsnum) \<Rightarrow> EventItem \<Rightarrow> EventItem \<Rightarrow> bool" where
  "ranks_before Date_parse a b =
     (js_less (score_key b) (score_key a) \<or>
      (score_key a = score_key b \<and> js_less (time_key Date_parse b) (time_key Date_parse a)))"

text \<open>A descending rank of the numbers in a linear order, used to compare with \<^const>\<open>sort_key\<close>.\<close>

fun desc_rank :: "jsnum \<Rightarrow> int \<times> real" where
  "desc_rank PosInf = (0, 0)"
| "desc_rank (Fin x) = (1, - x)"
| "desc_rank NegInf = (2, 0)"
| "desc_rank NaN = (3, 0)"

definition rank_key :: "(string \<Rightarrow> jsnum) \<Rightarrow> EventItem \<Rightarrow> (int \<times> real) \<times> (int \<times> real)" where
  "rank_key Date_parse e = (desc_rank (score_key e), desc_rank (time_key Date_parse e))"

section \<open>The magnitude range of the specification\<close>

text \<open>
  Following the words of the specification, not the code: under an active range
  \<open>[lo, hi]\<close> an earthquake-type event may stay only if its magnitude is present and
  \<open>lo \<le> magnitude \<le> hi\<close>; an event of any other type may always stay.
\<close>

definition spec_magnitude_ok :: "jsnum \<Rightarrow> jsnum \<Rightarrow> EventItem \<Rightarrow> bool" where
  "spec_magnitude_ok lo hi e =
     (event_type e = ''earthquake'' \<longrightarrow>
        (case magnitude e of
           None \<Rightarrow> False
         | Some m \<Rightarrow> m \<noteq> NaN \<and> (js_less lo m \<or> lo = m) \<and> (js_less m hi \<or> m = hi)))"

section \<open>Sample data\<close>

text \<open>
  \<^verbatim>\<open>Date.parse\<close> at the strings the examples use: three date-time strings in the ISO
  format of ECMAScript with their time values, and NaN for everything else, which is its
  value at \<^verbatim>\<open>"not a date"\<close>, the only other string the examples hand to it.
\<close>

definition Date_parse_sample :: "string \<Rightarrow> jsnum" where
  "Date_parse_sample s =
     (if s = ''2024-01-01T00:00:00.000Z'' then Fin 1704067200000
      else if s = ''1970-01-01T00:00:01.000Z'' then Fin 1000
      else if s = ''1969-12-31T23:59:59.000Z'' then Fin (- 1000)
      else NaN)"

text \<open>An event with the given identifier, type, time, magnitude, coordinates and score.\<close>

definition sample_event ::
  "string \<Rightarrow> string \<Rightarrow> string option \<Rightarrow> jsnum option \<Rightarrow> jsnum option \<Rightarrow> jsnum option \<Rightarrow>
   jsnum option \<Rightarrow> EventItem"
where
  "sample_event ident ty t mag la lo sc =
     \<lparr>source = ''feed'', event_type = ty, source_event_id = ident, time_utc = t,
      place = None, magnitude = mag, depth_km = None, lat = la, lon = lo,
      severity_score = sc, severity_level = ''low'', url = None, hazard_subtype = None\<rparr>"

definition response :: "EventItem list \<Rightarrow> EventsResponse" where
  "response evs =
     \<lparr>resp_hazard = None, resp_count = Fin (real (length evs)), resp_events = Some evs\<rparr>"

section \<open>Evaluation rules\<close>

declare String_nat.simps [simp del]



lemmas sample_defs = Date_parse_sample_def sample_event_def response_def

lemmas sort_defs = merged_def Array_sort_def SortCompare_def compare_events_def Let_def
  js_strict_neq_def time_or_zero_def score_key_def time_key_def

section \<open>The merge of a poll cycle\<close>

lemma js_sign_sub_pos:
  "a \<noteq> NaN \<Longrightarrow> b \<noteq> NaN \<Longrightarrow> (0 < js_sign (js_sub b a)) = js_less a b"
  by (cases a; cases b) auto

lemma js_less_desc_rank:
  "a \<noteq> NaN \<Longrightarrow> b \<noteq> NaN \<Longrightarrow> js_less a b = (desc_rank b < desc_rank a)"
  by (cases a; cases b) auto

lemma desc_rank_eq_iff: "(desc_rank a = desc_rank b) = (a = b)"
  by (cases a; cases b) auto

text \<open>On comparable keys the comparator is positive exactly when its second argument ranks first.\<close>

lemma compare_events_after:
  assumes "score_key x \<noteq> NaN" "score_key y \<noteq> NaN"
    and "time_key dp x \<noteq> NaN" "time_key dp y \<noteq> NaN"
  shows "(0 < SortCompare (compare_events dp) x y) = ranks_before dp y x"
proof (cases "score_key x = score_key y")
  case True
  with assms show ?thesis
    by (simp add: SortCompare_def compare_events_def Let_def js_strict_neq_def
        ranks_before_def js_sign_sub_pos score_key_def [symmetric] time_key_def [symmetric])
      (cases "score_key y"; simp)
next
  case False
  with assms show ?thesis
    by (auto simp add: SortCompare_def compare_events_def Let_def js_strict_neq_def
        ranks_before_def js_sign_sub_pos score_key_def [symmetric] time_key_def [symmetric])
qed

lemma ranks_before_rank_key:
  assumes "score_key x \<noteq> NaN" "score_key y \<noteq> NaN"
    and "time_key dp x \<noteq> NaN" "time_key dp y \<noteq> NaN"
  shows "ranks_before dp y x = (\<not> rank_key dp x \<le> rank_key dp y)"
  using assms
  by (auto simp add: ranks_before_def rank_key_def js_less_desc_rank desc_rank_eq_iff not_le)

text \<open>Where the comparator agrees with a linear key, the model of the sort is \<^const>\<open>sort_key\<close>.\<close>

lemma sort_insert_insort_key:
  "(\<And>y. y \<in> set ys \<Longrightarrow> (0 < SortCompare cmp x y) = (\<not> k x \<le> k y)) \<Longrightarrow>
   sort_insert cmp x ys = insort_key k x ys"
  by (induction ys) auto

lemma Array_sort_sort_key:
  "(\<And>x y. x \<in> set xs \<Longrightarrow> y \<in> set xs \<Longrightarrow> (0 < SortCompare cmp x y) = (\<not> k x \<le> k y)) \<Longrightarrow>
   Array_sort cmp xs = sort_key k xs"
proof (induction xs)
  case Nil
  show ?case by (simp add: Array_sort_def)
next
  case (Cons x xs)
  have IH: "Array_sort cmp xs = sort_key k xs"
    using Cons.prems by (intro Cons.IH) auto
  have "sort_insert cmp x (sort_key k xs) = insort_key k x (sort_key k xs)"
    using Cons.prems by (intro sort_insert_insort_key) auto
  with IH show ?case by (simp add: Array_sort_def)
qed

text \<open>
  C1, as amended. Let \<open>xs\<close> be the earthquake events followed by the flood events of a
  cycle whose two fetches fulfilled. If no score is NaN and every non-empty \<^verbatim>\<open>time_utc\<close>
  parses, then \<^verbatim>\<open>merged\<close> is a permutation of \<open>xs\<close> in which no event is preceded by one
  that ranks after it, where an event ranks first by the higher score (an absent score
  counting as 0) and then by the later time value (an absent or empty \<^verbatim>\<open>time_utc\<close> counting
  as time value 0, the epoch); and events with the same score and the same time value keep
  the order they have in \<open>xs\<close>.
\<close>

theorem merged_sorted_stable:
  assumes ok: "\<forall>e \<in> set (nullish (resp_events eq) [] @ nullish (resp_events fl) []).
                 score_key e \<noteq> NaN \<and> time_key dp e \<noteq> NaN"
  shows "mset (merged dp eq fl) = mset (nullish (resp_events eq) [] @ nullish (resp_events fl) []) \<and>
         sorted_wrt (\<lambda>a b. \<not> ranks_before dp b a) (merged dp eq fl) \<and>
         filter (\<lambda>e. score_key e = s \<and> time_key dp e = t) (merged dp eq fl) =
           filter (\<lambda>e. score_key e = s \<and> time_key dp e = t)
             (nullish (resp_events eq) [] @ nullish (resp_events fl) [])"
proof -
  define xs where "xs = nullish (resp_events eq) [] @ nullish (resp_events fl) []"
  have nn: "\<And>e. e \<in> set xs \<Longrightarrow> score_key e \<noteq> NaN \<and> time_key dp e \<noteq> NaN"
    using ok by (simp add: xs_def)
  have "Array_sort (compare_events dp) xs = sort_key (rank_key dp) xs"
  proof (rule Array_sort_sort_key)
    fix x y assume "x \<in> set xs" "y \<in> set xs"
    then show "(0 < SortCompare (compare_events dp) x y) = (\<not> rank_key dp x \<le> rank_key dp y)"
      using nn compare_events_after [of x y dp] ranks_before_rank_key [of x y dp] by simp
  qed
  then have m: "merged dp eq fl = sort_key (rank_key dp) xs"
    by (simp add: merged_def xs_def)
  have perm: "mset (merged dp eq fl) = mset xs"
    by (simp add: m)
  have in_xs: "\<And>e. e \<in> set (merged dp eq fl) \<Longrightarrow> e \<in> set xs"
    by (simp add: m)
  have "sorted (map (rank_key dp) (merged dp eq fl))"
    by (simp add: m)
  then have "sorted_wrt (\<lambda>a b. rank_key dp a \<le> rank_key dp b) (merged dp eq fl)"
    by (simp add: sorted_map)
  then have srt: "sorted_wrt (\<lambda>a b. \<not> ranks_before dp b a) (merged dp eq fl)"
  proof (rule sorted_wrt_mono_rel [rotated])
    fix a b assume "a \<in> set (merged dp eq fl)" "b \<in> set (merged dp eq fl)"
      and le: "rank_key dp a \<le> rank_key dp b"
    then have "a \<in> set xs" "b \<in> set xs" using in_xs by auto
    then show "\<not> ranks_before dp b a"
      using nn le ranks_before_rank_key [of a b dp] by simp
  qed
  have "filter (\<lambda>e. rank_key dp e = (desc_rank s, desc_rank t)) (merged dp eq fl) =
        filter (\<lambda>e. rank_key dp e = (desc_rank s, desc_rank t)) xs"
    unfolding m by (rule sort_key_stable)
  then have stab: "filter (\<lambda>e. score_key e = s \<and> time_key dp e = t) (merged dp eq fl) =
        filter (\<lambda>e. score_key e = s \<and> time_key dp e = t) xs"
    by (simp add: rank_key_def desc_rank_eq_iff)
  from perm srt stab show ?thesis by (simp add: xs_def)
qed

text \<open>
  An instance: a score-5 earthquake one second after the epoch, a score-9 earthquake with
  no time, and two score-5 floods with the same time in 2024. The score 9 comes first,
  the two floods keep their order, the early earthquake is last.
\<close>

theorem merged_sorted_stable_witness:
  "merged Date_parse_sample
     (response [sample_event ''a'' ''earthquake'' (Some ''1970-01-01T00:00:01.000Z'') None None None (Some (Fin 5)),
                sample_event ''b'' ''earthquake'' None None None None (Some (Fin 9))])
     (response [sample_event ''c'' ''flood'' (Some ''2024-01-01T00:00:00.000Z'') None None None (Some (Fin 5)),
                sample_event ''d'' ''flood'' (Some ''2024-01-01T00:00:00.000Z'') None None None (Some (Fin 5))]) =
   [sample_event ''b'' ''earthquake'' None None None None (Some (Fin 9)),
    sample_event ''c'' ''flood'' (Some ''2024-01-01T00:00:00.000Z'') None None None (Some (Fin 5)),
    sample_event ''d'' ''flood'' (Some ''2024-01-01T00:00:00.000Z'') None None None (Some (Fin 5)),
    sample_event ''a'' ''earthquake'' (Some ''1970-01-01T00:00:01.000Z'') None None None (Some (Fin 5))] \<and>
   filter (\<lambda>e. score_key e = Fin 5 \<and> time_key Date_parse_sample e = Fin 1704067200000)
     (merged Date_parse_sample
       (response [sample_event ''a'' ''earthquake'' (Some ''1970-01-01T00:00:01.000Z'') None None None (Some (Fin 5)),
                  sample_event ''b'' ''earthquake'' None None None None (Some (Fin 9))])
       (response [sample_event ''c'' ''flood'' (Some ''2024-01-01T00:00:00.000Z'') None None None (Some (Fin 5)),
                  sample_event ''d'' ''flood'' (Some ''2024-01-01T00:00:00.000Z'') None None None (Some (Fin 5))])) =
   [sample_event ''c'' ''flood'' (Some ''2024-01-01T00:00:00.000Z'') None None None (Some (Fin 5)),
    sample_event ''d'' ''flood'' (Some ''2024-01-01T00:00:00.000Z'') None None None (Some (Fin 5))]"
proof -
  let ?eq = "response [sample_event ''a'' ''earthquake'' (Some ''1970-01-01T00:00:01.000Z'') None None None (Some (Fin 5)),
                sample_event ''b'' ''earthquake'' None None None None (Some (Fin 9))]"
  let ?fl = "response [sample_event ''c'' ''flood'' (Some ''2024-01-01T00:00:00.000Z'') None None None (Some (Fin 5)),
                sample_event ''d'' ''flood'' (Some ''2024-01-01T00:00:00.000Z'') None None None (Some (Fin 5))]"
  have ok: "\<forall>e \<in> set (nullish (resp_events ?eq) [] @ nullish (resp_events ?fl) []).
              score_key e \<noteq> NaN \<and> time_key Date_parse_sample e \<noteq> NaN"
    by (simp add: sample_defs score_key_def time_key_def time_or_zero_def)
  have val: "merged Date_parse_sample ?eq ?fl =
     [sample_event ''b'' ''earthquake'' None None None None (Some (Fin 9)),
      sample_event ''c'' ''flood'' (Some ''2024-01-01T00:00:00.000Z'') None None None (Some (Fin 5)),
      sample_event ''d'' ''flood'' (Some ''2024-01-01T00:00:00.000Z'') None None None (Some (Fin 5)),
      sample_event ''a'' ''earthquake'' (Some ''1970-01-01T00:00:01.000Z'') None None None (Some (Fin 5))]"
    by (simp add: sort_defs sample_defs)
  have "filter (\<lambda>e. score_key e = Fin 5 \<and> time_key Date_parse_sample e = Fin 1704067200000)
          (merged Date_parse_sample ?eq ?fl) =
        filter (\<lambda>e. score_key e = Fin 5 \<and> time_key Date_parse_sample e = Fin 1704067200000)
          (nullish (resp_events ?eq) [] @ nullish (resp_events ?fl) [])"
    using merged_sorted_stable [OF ok, of "Fin 5" "Fin 1704067200000"] by blast
  also have "\<dots> =
     [sample_event ''c'' ''flood'' (Some ''2024-01-01T00:00:00.000Z'') None None None (Some (Fin 5)),
      sample_event ''d'' ''flood'' (Some ''2024-01-01T00:00:00.000Z'') None None None (Some (Fin 5))]"
    by (simp add: sample_defs score_key_def time_key_def time_or_zero_def)
  finally show ?thesis using val by blast
qed

text \<open>
  The claim as the specification words it fails twice. An event whose \<^verbatim>\<open>time_utc\<close> does
  not parse makes the comparator return NaN, which the sort reads as "equal": with equal
  scores it stays ahead of a dated event instead of sorting last. And an event without
  \<^verbatim>\<open>time_utc\<close> counts as the epoch, not as the earliest time: it sorts ahead of an event
  dated before 1970.
\<close>

theorem merged_unknown_time_counterexample:
  "merged Date_parse_sample
     (response [sample_event ''a'' ''earthquake'' (Some ''not a date'') None None None (Some (Fin 5)),
                sample_event ''b'' ''earthquake'' (Some ''2024-01-01T00:00:00.000Z'') None None None (Some (Fin 5))])
     (response []) =
   [sample_event ''a'' ''earthquake'' (Some ''not a date'') None None None (Some (Fin 5)),
    sample_event ''b'' ''earthquake'' (Some ''2024-01-01T00:00:00.000Z'') None None None (Some (Fin 5))] \<and>
   Date_parse_sample ''not a date'' = NaN \<and>
   merged Date_parse_sample
     (response [sample_event ''c'' ''earthquake'' (Some ''1969-12-31T23:59:59.000Z'') None None None None])
     (response [sample_event ''d'' ''flood'' None None None None (Some (Fin 0))]) =
   [sample_event ''d'' ''flood'' None None None None (Some (Fin 0)),
    sample_event ''c'' ''earthquake'' (Some ''1969-12-31T23:59:59.000Z'') None None None None]"
  by (simp add: sort_defs sample_defs)

section \<open>Failure and cancellation of a poll cycle\<close>

lemma load_settle_cancelled: "load_settle dp True outcome st = st"
  by (simp add: load_settle_def split: settled.splits prod.splits)

lemma Promise_all_rejects:
  "eq = Rejected r1 \<or> fl = Rejected r2 \<Longrightarrow> \<exists>r. Promise_all f eq fl = Rejected r"
  by (cases eq; cases fl) auto

text \<open>A response with a status outside 200 to 299 rejects with a message that is never empty.\<close>

lemma fetchEvents_not_ok:
  "\<not> resp_ok status \<Longrightarrow>
   \<exists>m. fetchEvents (Fetch_response status body parsed) = Rejected (Some m) \<and> m \<noteq> []"
  by (simp add: Let_def)

text \<open>
  C2, as amended. If either of the two fetches of a cycle rejects, \<^verbatim>\<open>Promise.all\<close>
  rejects with one reason and the cycle leaves \<^verbatim>\<open>events\<close> as it was before the cycle
  began, whatever the other fetch returned. If the effect has not been cancelled by then,
  the cycle ends with \<^verbatim>\<open>loading\<close> false and \<^verbatim>\<open>error\<close> set to the one message of that
  reason (or to the default text when the reason has none), and nothing else changed;
  the error box shows that message unless it is the empty string. If the effect has been
  cancelled, the cycle sets nothing: the state stays as the start of the cycle left it.
\<close>

theorem load_rejection_keeps_events:
  assumes "eq = Rejected r1 \<or> fl = Rejected r2"
  shows "\<exists>r. Promise_all f eq fl = Rejected r \<and>
           events (load_settle dp c (Promise_all f eq fl) (load_begin st)) = events st \<and>
           (\<not> c \<longrightarrow>
              load_settle dp c (Promise_all f eq fl) (load_begin st) =
                st\<lparr>loading := False, error := Some (nullish r ''Failed to load events'')\<rparr> \<and>
              error_box (load_settle dp c (Promise_all f eq fl) (load_begin st)) =
                (if nullish r ''Failed to load events'' = [] then None
                 else Some (nullish r ''Failed to load events''))) \<and>
           (c \<longrightarrow> load_settle dp c (Promise_all f eq fl) (load_begin st) = load_begin st)"
proof -
  from assms obtain r where r: "Promise_all f eq fl = Rejected r"
    using Promise_all_rejects by blast
  show ?thesis
    by (rule exI [of _ r]) (simp add: r load_settle_def load_begin_def error_box_def)
qed

text \<open>
  Scenario C of the specification: the flood feed answers 503 while the earthquake fetch
  succeeds; the list shown before stays, with one error message.
\<close>

theorem load_rejection_keeps_events_witness:
  "events (load_settle Date_parse_sample False
     (Promise_all True
        (fetchEvents (Fetch_response 200 (Fulfilled []) (Fulfilled (response
           [sample_event ''a'' ''earthquake'' None None None None (Some (Fin 9))]))))
        (fetchEvents (Fetch_response 503 (Fulfilled ''down'') (Rejected None))))
     (load_begin (Home_initial\<lparr>events :=
        [sample_event ''z'' ''flood'' None None None None None]\<rparr>))) =
     [sample_event ''z'' ''flood'' None None None None None] \<and>
   error_box (load_settle Date_parse_sample False
     (Promise_all True
        (fetchEvents (Fetch_response 200 (Fulfilled []) (Fulfilled (response
           [sample_event ''a'' ''earthquake'' None None None None (Some (Fin 9))]))))
        (fetchEvents (Fetch_response 503 (Fulfilled ''down'') (Rejected None))))
     (load_begin (Home_initial\<lparr>events :=
        [sample_event ''z'' ''flood'' None None None None None]\<rparr>))) =
     Some ''API 503: down''"
proof -
  let ?eq = "fetchEvents (Fetch_response 200 (Fulfilled []) (Fulfilled (response
           [sample_event ''a'' ''earthquake'' None None None None (Some (Fin 9))])))"
  let ?fl = "fetchEvents (Fetch_response 503 (Fulfilled ''down'') (Rejected None))"
  let ?st = "Home_initial\<lparr>events := [sample_event ''z'' ''flood'' None None None None None]\<rparr>"
  have fl: "?fl = Rejected (Some ''API 503: down'')"
    by (simp add: resp_ok_def String_nat.simps)
  have eq: "?eq = Fulfilled (response
           [sample_event ''a'' ''earthquake'' None None None None (Some (Fin 9))])"
    by (simp add: resp_ok_def)
  have hyp: "?eq = Rejected None \<or> ?fl = Rejected (Some ''API 503: down'')"
    using fl by blast
  from load_rejection_keeps_events [OF hyp, of True Date_parse_sample False ?st]
  obtain r where r: "Promise_all True ?eq ?fl = Rejected r"
    and ev: "events (load_settle Date_parse_sample False (Promise_all True ?eq ?fl) (load_begin ?st)) =
             events ?st"
    and box: "error_box (load_settle Date_parse_sample False (Promise_all True ?eq ?fl) (load_begin ?st)) =
        (if nullish r ''Failed to load events'' = [] then None
         else Some (nullish r ''Failed to load events''))"
    by blast
  from r have "r = Some ''API 503: down''"
    unfolding fl eq by simp
  with box ev show ?thesis by simp
qed

text \<open>
  The claim as the specification words it fails on two rejecting cycles. A rejection
  whose message is the empty string is kept by \<^verbatim>\<open>??\<close> and stored, and the error box,
  which shows a truthy \<^verbatim>\<open>error\<close> only, shows nothing. And a cycle that rejects after the
  effect was cancelled sets no error at all.
\<close>

theorem load_rejection_silent_counterexample:
  "error (load_settle Date_parse_sample False
     (Promise_all True (Rejected (Some [])) (Fulfilled (response [])))
     (load_begin Home_initial)) = Some [] \<and>
   error_box (load_settle Date_parse_sample False
     (Promise_all True (Rejected (Some [])) (Fulfilled (response [])))
     (load_begin Home_initial)) = None \<and>
   error (load_settle Date_parse_sample True
     (Promise_all True (Fulfilled (response [])) (Rejected (Some ''API 503: down'')))
     (load_begin Home_initial)) = None"
  by (simp add: load_settle_def load_begin_def error_box_def Home_initial_def)

lemma step_after_cleanup:
  "cancelled p \<Longrightarrow> \<not> timer p \<Longrightarrow>
   cancelled (step dp p a) \<and> \<not> timer (step dp p a) \<and> page (step dp p a) = page p"
  by (cases a) (simp_all add: load_settle_cancelled)

lemma run_after_cleanup:
  "cancelled p \<Longrightarrow> \<not> timer p \<Longrightarrow> page (foldl (step dp) p as) = page p"
proof (induction as arbitrary: p)
  case Nil
  show ?case by simp
next
  case (Cons a as)
  from step_after_cleanup [OF Cons.prems, of dp a]
  have "page (foldl (step dp) (step dp p a) as) = page (step dp p a)"
    by (intro Cons.IH) simp_all
  with step_after_cleanup [OF Cons.prems, of dp a] show ?case by simp
qed

text \<open>
  C3. Once the cleanup function of the effect has run, whatever happens next (cycles in
  flight settling, fulfilled or rejected, in any order; the timer, which is cleared)
  leaves the whole state of the page as it was at that moment: \<^verbatim>\<open>events\<close>, \<^verbatim>\<open>error\<close>
  and \<^verbatim>\<open>loading\<close> alike.
\<close>

theorem no_mutation_after_cleanup:
  "page (run dp (step dp p Cleanup) as) = page p"
  unfolding run_def
  using run_after_cleanup [of "step dp p Cleanup" dp as] by simp

text \<open>
  Scenario E of the specification: the page is mounted, the cleanup runs while the first
  cycle is in flight, and that cycle then fulfils with an event: the page still shows
  what it showed when the cleanup ran.
\<close>

theorem no_mutation_after_cleanup_witness:
  "page (run Date_parse_sample (step Date_parse_sample (mount Home_initial) Cleanup)
     [Settle True
        (Fulfilled (response [sample_event ''a'' ''earthquake'' None None None None (Some (Fin 9))]))
        (Fulfilled (response [])),
      Tick]) =
   \<lparr>events = [], loading = True, error = None, hazard = All_hazards\<rparr>"
  using no_mutation_after_cleanup [of Date_parse_sample "mount Home_initial"
    "[Settle True
        (Fulfilled (response [sample_event ''a'' ''earthquake'' None None None None (Some (Fin 9))]))
        (Fulfilled (response [])),
      Tick]"]
  by (simp add: mount_def Home_initial_def load_begin_def)

section \<open>The hazard filter\<close>

text \<open>
  C4, as amended. \<^verbatim>\<open>filteredEvents\<close> takes no magnitude range: it keeps exactly the events
  the hazard selector admits (all of them for "all", else those whose \<^verbatim>\<open>event_type\<close> is
  the selected one), it never looks at \<^verbatim>\<open>magnitude\<close> (changing or removing magnitudes
  changes nothing but the magnitudes of the output), and so no flood-type event is ever
  excluded on account of a magnitude: it is in the output unless the selector is
  "earthquake".
\<close>

theorem filter_ignores_magnitude:
  "filteredEvents evs hz =
     filter (\<lambda>e. hz = All_hazards \<or> event_type e = HazardFilter_string hz) evs \<and>
   filteredEvents (map (\<lambda>e. e\<lparr>magnitude := m e\<rparr>) evs) hz =
     map (\<lambda>e. e\<lparr>magnitude := m e\<rparr>) (filteredEvents evs hz) \<and>
   (e \<in> set evs \<and> event_type e = ''flood'' \<and> hz \<noteq> Earthquake_only \<longrightarrow>
      e \<in> set (filteredEvents evs hz))"
  by (cases hz) (auto simp add: filteredEvents_def filter_map comp_def)

theorem filter_ignores_magnitude_witness:
  "sample_event ''f1'' ''flood'' None (Some (Fin 9)) None None None \<in>
     set (filteredEvents
       [sample_event ''q1'' ''earthquake'' None (Some (Fin 6.1)) None None None,
        sample_event ''f1'' ''flood'' None (Some (Fin 9)) None None None] Flood_only)"
proof -
  let ?f = "sample_event ''f1'' ''flood'' None (Some (Fin 9)) None None None"
  let ?evs = "[sample_event ''q1'' ''earthquake'' None (Some (Fin 6.1)) None None None, ?f]"
  have "?f \<in> set ?evs \<and> event_type ?f = ''flood'' \<and> Flood_only \<noteq> Earthquake_only"
    by (simp add: sample_event_def)
  with filter_ignores_magnitude [of ?evs Flood_only "\<lambda>e. None" ?f]
  show ?thesis by blast
qed

text \<open>
  Scenario D of the specification on the code: with the earthquake selector, an
  earthquake of magnitude 6.1 and one without magnitude both stay in the output, although
  neither lies in the range \<open>[5, 6]\<close>.
\<close>

theorem magnitude_range_counterexample:
  "filteredEvents
     [sample_event ''q1'' ''earthquake'' None (Some (Fin 6.1)) None None None,
      sample_event ''q2'' ''earthquake'' None None None None None] Earthquake_only =
     [sample_event ''q1'' ''earthquake'' None (Some (Fin 6.1)) None None None,
      sample_event ''q2'' ''earthquake'' None None None None None] \<and>
   \<not> spec_magnitude_ok (Fin 5) (Fin 6)
       (sample_event ''q1'' ''earthquake'' None (Some (Fin 6.1)) None None None) \<and>
   \<not> spec_magnitude_ok (Fin 5) (Fin 6)
       (sample_event ''q2'' ''earthquake'' None None None None None)"
  by (simp add: filteredEvents_def sample_event_def spec_magnitude_ok_def)

text \<open>
  C5. The output of \<^verbatim>\<open>filteredEvents\<close> is a subsequence of its input (same elements, same
  order, nothing added); with the selector "all" it is the input itself; and filtering
  the output again with the same selector changes nothing. Being a function of the
  collection and the selector alone, it gives the same output whenever it is computed
  again from the same arguments, and the input list is never changed.
\<close>

theorem filter_subsequence:
  "subseq (filteredEvents evs hz) evs \<and>
   filteredEvents evs All_hazards = evs \<and>
   filteredEvents (filteredEvents evs hz) hz = filteredEvents evs hz"
  by (simp add: filteredEvents_def)

theorem filter_subsequence_witness:
  "subseq [sample_event ''f1'' ''flood'' None None None None None]
     [sample_event ''q1'' ''earthquake'' None None None None None,
      sample_event ''f1'' ''flood'' None None None None None]"
  using filter_subsequence
    [of "[sample_event ''q1'' ''earthquake'' None None None None None,
          sample_event ''f1'' ''flood'' None None None None None]" Flood_only]
  by (simp add: filteredEvents_def sample_event_def)

section \<open>Map membership and the heat layer\<close>

lemma has_valid_coords_iff:
  "has_valid_coords e = (\<exists>x y. lat e = Some x \<and> lon e = Some y \<and> x \<noteq> NaN \<and> y \<noteq> NaN)"
proof (cases "lat e")
  case None
  then show ?thesis by (simp add: has_valid_coords_def)
next
  case (Some x)
  note la = Some
  show ?thesis
  proof (cases "lon e")
    case None
    then show ?thesis by (simp add: has_valid_coords_def)
  next
    case (Some y)
    with la show ?thesis
      by (cases x; cases y) (simp_all add: has_valid_coords_def)
  qed
qed

text \<open>The second check, inside \<^verbatim>\<open>HeatLayer\<close>, removes nothing that \<^verbatim>\<open>validEvents\<close> let through.\<close>

lemma estimate_eq:
  "estimate evs =
     (if filter has_valid_coords evs = [] then None
      else Some (map (\<lambda>e. (lat e, lon e, nullish (severity_score e) (Fin 1)))
                   (filter has_valid_coords evs)))"
proof -
  have "filter (\<lambda>p. typeof_number (hp_lat p) \<and> typeof_number (hp_lon p) \<and>
                    \<not> Number_isNaN (hp_lat p) \<and> \<not> Number_isNaN (hp_lon p))
          (heatPoints (filter has_valid_coords evs)) = heatPoints (filter has_valid_coords evs)"
    by (simp add: heatPoints_def filter_map comp_def has_valid_coords_def [symmetric])
  then show ?thesis
    by (simp add: estimate_def HeatLayer_def validEvents_def)
      (simp add: heatPoints_def comp_def)
qed

text \<open>
  C6, as amended. The heat layer gets one point \<open>(lat, lon, weight)\<close> per event whose
  \<^verbatim>\<open>lat\<close> and \<^verbatim>\<open>lon\<close> are both numbers other than NaN, in the order of the input, with
  the event's \<^verbatim>\<open>severity_score\<close> as weight when it is present and 1 otherwise; every other
  event is dropped (and no layer is added at all when no event is left). So in every
  output point \<^verbatim>\<open>lat\<close> and \<^verbatim>\<open>lon\<close> are numbers other than NaN; they need not be finite.
\<close>

theorem estimate_points:
  "estimate evs =
     (if filter has_valid_coords evs = [] then None
      else Some (map (\<lambda>e. (lat e, lon e, nullish (severity_score e) (Fin 1)))
                   (filter has_valid_coords evs))) \<and>
   has_valid_coords e = (\<exists>x y. lat e = Some x \<and> lon e = Some y \<and> x \<noteq> NaN \<and> y \<noteq> NaN) \<and>
   (estimate evs = Some pts \<longrightarrow>
      (\<forall>p \<in> set pts. \<exists>x y w. p = (Some x, Some y, w) \<and> x \<noteq> NaN \<and> y \<noteq> NaN))"
proof -
  have "\<exists>x y w. p = (Some x, Some y, w) \<and> x \<noteq> NaN \<and> y \<noteq> NaN"
    if "estimate evs = Some pts" "p \<in> set pts" for p
  proof -
    from that obtain e where "has_valid_coords e"
      and "p = (lat e, lon e, nullish (severity_score e) (Fin 1))"
      by (auto simp add: estimate_eq split: if_splits)
    then show ?thesis by (auto simp add: has_valid_coords_iff)
  qed
  then show ?thesis
    using estimate_eq [of evs] has_valid_coords_iff [of e] by blast
qed

text \<open>
  An instance: of an event without latitude, one with a NaN longitude, one with score 7
  and one without score, the last two alone reach the heat layer, with weights 7 and 1.
\<close>

theorem estimate_points_witness:
  "estimate
     [sample_event ''a'' ''earthquake'' None None None (Some (Fin 3)) (Some (Fin 4)),
      sample_event ''b'' ''earthquake'' None None (Some (Fin 3)) (Some NaN) (Some (Fin 4)),
      sample_event ''c'' ''earthquake'' None None (Some (Fin 10)) (Some (Fin 20)) (Some (Fin 7)),
      sample_event ''d'' ''flood'' None None (Some (Fin 30)) (Some (Fin 40)) None] =
   Some [(Some (Fin 10), Some (Fin 20), Fin 7), (Some (Fin 30), Some (Fin 40), Fin 1)]"
proof -
  let ?evs = "[sample_event ''a'' ''earthquake'' None None None (Some (Fin 3)) (Some (Fin 4)),
      sample_event ''b'' ''earthquake'' None None (Some (Fin 3)) (Some NaN) (Some (Fin 4)),
      sample_event ''c'' ''earthquake'' None None (Some (Fin 10)) (Some (Fin 20)) (Some (Fin 7)),
      sample_event ''d'' ''flood'' None None (Some (Fin 30)) (Some (Fin 40)) None]"
  have "estimate ?evs =
     (if filter has_valid_coords ?evs = [] then None
      else Some (map (\<lambda>e. (lat e, lon e, nullish (severity_score e) (Fin 1)))
                   (filter has_valid_coords ?evs)))"
    using estimate_points [of ?evs] by blast
  then show ?thesis
    by (simp add: has_valid_coords_def sample_event_def)
qed

text \<open>
  The claim as the specification words it fails on an infinite coordinate: the JSON
  number \<^verbatim>\<open>1e999\<close> is parsed to \<^verbatim>\<open>Infinity\<close>, which is a number and not NaN, so the event
  reaches the heat layer with a latitude that is not finite.
\<close>

theorem estimate_infinite_counterexample:
  "estimate
     [sample_event ''q1'' ''earthquake'' None None (Some PosInf) (Some (Fin 12)) (Some (Fin 3))] =
     Some [(Some PosInf, Some (Fin 12), Fin 3)] \<and>
   \<not> Number_isFinite PosInf"
  by (simp add: estimate_def HeatLayer_def heatPoints_def validEvents_def has_valid_coords_def
      sample_event_def)

text \<open>
  C7. An event of the filtered collection whose \<^verbatim>\<open>lat\<close> or \<^verbatim>\<open>lon\<close> is not a number
  (\<open>None\<close>: missing, \<^verbatim>\<open>null\<close> or \<^verbatim>\<open>undefined\<close>) or is NaN is not among the events the
  map renders, and still has its row in the list view. The map renders exactly the events
  with valid coordinates; the list view has one row per event, in order and under the
  event's key, and no row depends on the coordinates.
\<close>

theorem unplottable_events_stay_listed:
  assumes "e \<in> set evs"
    and "lat e = None \<or> lat e = Some NaN \<or> lon e = None \<or> lon e = Some NaN"
  shows "e \<notin> set (validEvents (Some evs)) \<and>
         list_row e \<in> set (list_rows evs) \<and>
         length (list_rows evs) = length evs \<and>
         map row_key (list_rows evs) = map (\<lambda>x. source x @ ''-'' @ source_event_id x) evs \<and>
         list_rows (map (\<lambda>x. x\<lparr>lat := la x, lon := lo x\<rparr>) evs) = list_rows evs \<and>
         set (validEvents (Some evs)) = {x \<in> set evs. has_valid_coords x}"
  using assms
  by (auto simp add: validEvents_def list_rows_def list_row_def has_valid_coords_def hazardPill_def)

theorem unplottable_events_stay_listed_witness:
  "sample_event ''b'' ''flood'' None None None (Some (Fin 3)) None \<notin>
     set (validEvents (Some
       [sample_event ''a'' ''earthquake'' None None (Some (Fin 1)) (Some (Fin 2)) None,
        sample_event ''b'' ''flood'' None None None (Some (Fin 3)) None])) \<and>
   list_row (sample_event ''b'' ''flood'' None None None (Some (Fin 3)) None) \<in>
     set (list_rows
       [sample_event ''a'' ''earthquake'' None None (Some (Fin 1)) (Some (Fin 2)) None,
        sample_event ''b'' ''flood'' None None None (Some (Fin 3)) None])"
proof -
  let ?b = "sample_event ''b'' ''flood'' None None None (Some (Fin 3)) None"
  let ?evs = "[sample_event ''a'' ''earthquake'' None None (Some (Fin 1)) (Some (Fin 2)) None, ?b]"
  have 1: "?b \<in> set ?evs" by simp
  have 2: "lat ?b = None \<or> lat ?b = Some NaN \<or> lon ?b = None \<or> lon ?b = Some NaN"
    by (simp add: sample_event_def)
  from unplottable_events_stay_listed [OF 1 2] show ?thesis by blast
qed

text \<open>
  C9. Of two events with valid coordinates, one with the score 0 and one with no score,
  the first gets the heat weight 0 and the second the default weight 1, which is strictly
  more; yet the comparator of the merge reads the score 0 for both and orders them by
  time alone.
\<close>

theorem zero_score_weighs_less_than_absent:
  assumes "has_valid_coords a" and "has_valid_coords b"
    and "severity_score a = Some (Fin 0)" and "severity_score b = None"
  shows "\<exists>wa wb. estimate [a, b] = Some [(lat a, lon a, wa), (lat b, lon b, wb)] \<and>
           wa = Fin 0 \<and> wb = Fin 1 \<and> js_less wa wb \<and>
           score_key a = Fin 0 \<and> score_key b = Fin 0 \<and>
           compare_events dp a b =
             js_sub (time_or_zero dp (time_utc b)) (time_or_zero dp (time_utc a))"
  using assms
  by (simp add: estimate_eq compare_events_def js_strict_neq_def score_key_def)

theorem zero_score_weighs_less_than_absent_witness:
  "estimate
     [sample_event ''a'' ''earthquake'' None None (Some (Fin 10)) (Some (Fin 20)) (Some (Fin 0)),
      sample_event ''b'' ''flood'' None None (Some (Fin 30)) (Some (Fin 40)) None] =
   Some [(Some (Fin 10), Some (Fin 20), Fin 0), (Some (Fin 30), Some (Fin 40), Fin 1)]"
proof -
  let ?a = "sample_event ''a'' ''earthquake'' None None (Some (Fin 10)) (Some (Fin 20)) (Some (Fin 0))"
  let ?b = "sample_event ''b'' ''flood'' None None (Some (Fin 30)) (Some (Fin 40)) None"
  have 1: "has_valid_coords ?a" and 2: "has_valid_coords ?b"
    by (simp_all add: has_valid_coords_def sample_event_def)
  have 3: "severity_score ?a = Some (Fin 0)" and 4: "severity_score ?b = None"
    by (simp_all add: sample_event_def)
  from zero_score_weighs_less_than_absent [OF 1 2 3 4, of Date_parse_sample]
  have "estimate [?a, ?b] = Some [(lat ?a, lon ?a, Fin 0), (lat ?b, lon ?b, Fin 1)]"
    by blast
  then show ?thesis by (simp add: sample_event_def)
qed

section \<open>The thumbs of the magnitude slider\<close>







section \<open>Severity colours are total\<close>


text \<open>
  C8. Both severity-to-colour mappings return a result on every input: critical, high and
  medium have a fixed colour each, the three colours differ from one another and from the
  default, and every other input, \<^verbatim>\<open>undefined\<close> (\<open>None\<close>), \<^verbatim>\<open>low\<close> and any unknown string
  included, gets the default (low) colour.
\<close>

theorem severity_colours_total:
  "colorForLevel (Some ''critical'') = ''#ef4444'' \<and>
   colorForLevel (Some ''high'') = ''#f97316'' \<and>
   colorForLevel (Some ''medium'') = ''#eab308'' \<and>
   badgeClass (Some ''critical'') = ''bg-red-600 text-white'' \<and>
   badgeClass (Some ''high'') = ''bg-orange-600 text-white'' \<and>
   badgeClass (Some ''medium'') = ''bg-yellow-500 text-black'' \<and>
   distinct [colorForLevel (Some ''critical''), colorForLevel (Some ''high''),
             colorForLevel (Some ''medium''), colorForLevel (Some ''low'')] \<and>
   distinct [badgeClass (Some ''critical''), badgeClass (Some ''high''),
             badgeClass (Some ''medium''), badgeClass (Some ''low'')] \<and>
   (level \<notin> {Some ''critical'', Some ''high'', Some ''medium''} \<longrightarrow>
      colorForLevel level = ''#22c55e'' \<and> badgeClass level = ''bg-green-600 text-white'')"
  by (simp add: colorForLevel_def badgeClass_def)

theorem severity_colours_total_witness:
  "colorForLevel None = ''#22c55e'' \<and> badgeClass None = ''bg-green-600 text-white'' \<and>
   colorForLevel (Some ''severe'') = ''#22c55e'' \<and>
   badgeClass (Some ''severe'') = ''bg-green-600 text-white''"
  using severity_colours_total [of None] severity_colours_total [of "Some ''severe''"]
  by simp

end
